theory Spec2Isabelle
  imports Main
begin

section \<open>The error envelope of the API: \<open>core/exceptions.py\<close>\<close>

text \<open>
  The repository registers \<open>core.exceptions.custom_exception_handler\<close> as the
  \<open>EXCEPTION_HANDLER\<close> of the REST framework (\<open>config/settings/base.py\<close>). The handler
  asks the framework's own \<open>exception_handler\<close> for a response and, when there is one,
  replaces its body by a mapping with the keys \<open>error\<close> and \<open>detail\<close>.
\<close>

subsection \<open>Python values\<close>

text \<open>
  The body of a response (\<open>response.data\<close>) is a Python value of the kinds that a JSON
  renderer accepts. A mapping is kept as an association list in insertion order, with
  string keys, and a lookup finds the first entry of a key; a string subclass such as
  the framework's \<open>ErrorDetail\<close> is a \<open>PyStr\<close>.
\<close>

datatype pyval =
    PyNone
  | PyBool bool
  | PyInt int
  | PyStr string
  | PyList "pyval list"
  | PyDict "(string \<times> pyval) list"

text \<open>\<open>isinstance(v, str)\<close>.\<close>

fun isinstance_str :: "pyval \<Rightarrow> bool" where
  "isinstance_str (PyStr s) = True"
| "isinstance_str v = False"

text \<open>\<open>type(v).__name__\<close>, as it appears in the message of an \<open>AttributeError\<close>.\<close>

fun type_name :: "pyval \<Rightarrow> string" where
  "type_name PyNone = ''NoneType''"
| "type_name (PyBool b) = ''bool''"
| "type_name (PyInt i) = ''int''"
| "type_name (PyStr s) = ''str''"
| "type_name (PyList xs) = ''list''"
| "type_name (PyDict kvs) = ''dict''"

text \<open>
  The exceptions that the handler itself can raise:
  \<open>AttributeError t a\<close> stands for \<open>'t' object has no attribute 'a'\<close>.
\<close>

datatype error = AttributeError string string

text \<open>
  \<open>v.get(key, default)\<close>. Of the values above only a mapping has a \<open>get\<close> method; the
  attribute lookup on any other value raises \<open>AttributeError\<close>. On a mapping the
  value stored under the key is returned, whatever it is (also \<open>None\<close>), and the
  default only when the key is absent.
\<close>

fun py_get :: "pyval \<Rightarrow> string \<Rightarrow> pyval \<Rightarrow> error + pyval" where
  "py_get (PyDict kvs) key dflt =
     Inr (case map_of kvs key of Some v \<Rightarrow> v | None \<Rightarrow> dflt)"
| "py_get v key dflt = Inl (AttributeError (type_name v) ''get'')"

subsection \<open>Responses and the framework\<close>

text \<open>The attributes of \<open>rest_framework.response.Response\<close> that the claims speak of.\<close>

record response =
  data :: pyval
  status_code :: int
  headers :: "(string \<times> string) list"

text \<open>
  The default formatter \<open>rest_framework.views.exception_handler\<close> is not part of the
  repository: it is a parameter of the handler below, a function from the fault and the
  context to a response or \<open>None\<close>. The fault and the context are opaque, hence type
  variables.

  Of Python's \<open>str\<close> the handler needs two things, kept in a record:
  \<^item> \<open>str_exc\<close> is \<open>str(exc)\<close> on the raised fault;
  \<^item> \<open>str_other\<close> is \<open>str(v)\<close> on an integer, a list or a mapping, whose text
    (Python's \<open>repr\<close>) is left to the runtime.
  The formatter and both conversions are taken to return: a formatter or a \<open>__str__\<close>
  that raises is outside the model.
\<close>

record 'exc builtins =
  str_exc :: "'exc \<Rightarrow> string"
  str_other :: "pyval \<Rightarrow> string"

text \<open>\<open>str(v)\<close> on a value: a string is returned as it is.\<close>

fun py_str :: "'exc builtins \<Rightarrow> pyval \<Rightarrow> string" where
  "py_str B (PyStr s) = s"
| "py_str B PyNone = ''None''"
| "py_str B (PyBool b) = (if b then ''True'' else ''False'')"
| "py_str B v = str_other B v"

subsection \<open>The handler\<close>

text \<open>
  \<^verbatim>\<open>
  def custom_exception_handler(exc, context):
      response = exception_handler(exc, context)
      if response is not None:
          error_message = response.data.get("detail", str(exc))
          response.data = {
              "error": str(error_message),
              "detail": response.data if not isinstance(response.data, str) else None,
          }
      return response
  \<close>
  The result is \<open>Inl\<close> of the exception when the handler raises, and otherwise
  \<open>Inr\<close> of what it returns: \<open>None\<close> or the response with its \<open>data\<close>
  replaced.
\<close>

definition custom_exception_handler ::
  "('exc \<Rightarrow> 'ctx \<Rightarrow> response option) \<Rightarrow> 'exc builtins \<Rightarrow> 'exc \<Rightarrow> 'ctx
     \<Rightarrow> error + response option" where
  "custom_exception_handler exception_handler B exc context =
     (case exception_handler exc context of
        None \<Rightarrow> Inr None
      | Some response \<Rightarrow>
          (case py_get (data response) ''detail'' (PyStr (str_exc B exc)) of
             Inl e \<Rightarrow> Inl e
           | Inr error_message \<Rightarrow>
               Inr (Some (response\<lparr>data :=
                 PyDict [(''error'', PyStr (py_str B error_message)),
                         (''detail'', if \<not> isinstance_str (data response)
                                      then data response else PyNone)]\<rparr>))))"

subsection \<open>Examples\<close>

text \<open>
  In the examples the fault is its own message, and no example takes \<open>str\<close> of an
  integer, a list or a mapping.
\<close>

definition message_builtins :: "string builtins" where
  "message_builtins = \<lparr>str_exc = (\<lambda>exc. exc), str_other = (\<lambda>v. [])\<rparr>"

text \<open>A formatter that answers every fault with the same response, or with \<open>None\<close>.\<close>

definition always :: "response option \<Rightarrow> string \<Rightarrow> unit \<Rightarrow> response option" where
  "always r exc context = r"

section \<open>Properties\<close>

subsection \<open>What the handler computes, by the shape of the baseline body\<close>

lemma handler_on_none:
  assumes "exception_handler exc context = None"
  shows "custom_exception_handler exception_handler B exc context = Inr None"
  using assms by (simp add: custom_exception_handler_def)

lemma handler_on_mapping:
  assumes "exception_handler exc context = Some r" and "data r = PyDict kvs"
  shows "custom_exception_handler exception_handler B exc context =
    Inr (Some (r\<lparr>data := PyDict
      [(''error'', PyStr (py_str B (case map_of kvs ''detail'' of
                                      Some v \<Rightarrow> v | None \<Rightarrow> PyStr (str_exc B exc)))),
       (''detail'', PyDict kvs)]\<rparr>))"
  using assms by (simp add: custom_exception_handler_def)

lemma py_get_non_mapping:
  assumes "\<And>kvs. v \<noteq> PyDict kvs"
  shows "py_get v key dflt = Inl (AttributeError (type_name v) ''get'')"
  using assms by (cases v) auto

lemma handler_on_non_mapping:
  assumes "exception_handler exc context = Some r" and "\<And>kvs. data r \<noteq> PyDict kvs"
  shows "custom_exception_handler exception_handler B exc context =
    Inl (AttributeError (type_name (data r)) ''get'')"
  using assms by (simp add: custom_exception_handler_def py_get_non_mapping)

lemma handler_returns_iff:
  "(\<exists>res. custom_exception_handler exception_handler B exc context = Inr res) \<longleftrightarrow>
   (case exception_handler exc context of
      None \<Rightarrow> True
    | Some r \<Rightarrow> (\<exists>kvs. data r = PyDict kvs))"
proof (cases "exception_handler exc context")
  case None
  then show ?thesis by (simp add: handler_on_none)
next
  case (Some r)
  show ?thesis
  proof (cases "\<exists>kvs. data r = PyDict kvs")
    case True
    then obtain kvs where "data r = PyDict kvs" by blast
    with Some show ?thesis by (simp add: handler_on_mapping)
  next
    case False
    then have "\<And>kvs. data r \<noteq> PyDict kvs" by blast
    with Some False show ?thesis by (simp add: handler_on_non_mapping)
  qed
qed

subsection \<open>Mapping bodies\<close>

text \<open>
  Claim C1. When the baseline body is a mapping that has the key \<open>detail\<close> with a string
  \<open>m\<close> as its value, among any other keys, the handler returns the baseline response
  with the body \<open>{"error": m, "detail": <the whole original mapping>}\<close>; the status
  code is the baseline's.
\<close>

theorem detail_string_envelope:
  assumes "exception_handler exc context = Some r"
    and "data r = PyDict kvs"
    and "map_of kvs ''detail'' = Some (PyStr m)"
  shows "custom_exception_handler exception_handler B exc context =
           Inr (Some (r\<lparr>data := PyDict [(''error'', PyStr m), (''detail'', PyDict kvs)]\<rparr>))
       \<and> status_code (r\<lparr>data := PyDict [(''error'', PyStr m), (''detail'', PyDict kvs)]\<rparr>)
           = status_code r"
  using assms by (simp add: handler_on_mapping)

theorem detail_string_envelope_witness:
  "custom_exception_handler
     (always (Some \<lparr>data = PyDict [(''detail'', PyStr ''This field is required.''),
                                   (''field'', PyStr ''name'')],
                     status_code = 400, headers = []\<rparr>))
     message_builtins ''Invalid input.'' ()
   = Inr (Some \<lparr>data = PyDict
            [(''error'', PyStr ''This field is required.''),
             (''detail'', PyDict [(''detail'', PyStr ''This field is required.''),
                                  (''field'', PyStr ''name'')])],
          status_code = 400, headers = []\<rparr>)"
  using detail_string_envelope
    [of "always (Some \<lparr>data = PyDict [(''detail'', PyStr ''This field is required.''),
                                        (''field'', PyStr ''name'')],
                          status_code = 400, headers = []\<rparr>)"
        "''Invalid input.''" "()"
        "\<lparr>data = PyDict [(''detail'', PyStr ''This field is required.''),
                          (''field'', PyStr ''name'')],
          status_code = 400, headers = []\<rparr>"
        "[(''detail'', PyStr ''This field is required.''), (''field'', PyStr ''name'')]"
        "''This field is required.''" message_builtins]
  by (simp add: always_def)

text \<open>
  Claim C3. When the baseline body is a mapping without the key \<open>detail\<close>, the handler
  returns the baseline response with the body
  \<open>{"error": str(exc), "detail": <the whole original mapping>}\<close>; the status code is
  the baseline's.
\<close>

theorem no_detail_key_envelope:
  assumes "exception_handler exc context = Some r"
    and "data r = PyDict kvs"
    and "''detail'' \<notin> fst ` set kvs"
  shows "custom_exception_handler exception_handler B exc context =
           Inr (Some (r\<lparr>data := PyDict [(''error'', PyStr (str_exc B exc)),
                                          (''detail'', PyDict kvs)]\<rparr>))
       \<and> status_code (r\<lparr>data := PyDict [(''error'', PyStr (str_exc B exc)),
                                          (''detail'', PyDict kvs)]\<rparr>)
           = status_code r"
proof -
  from assms(3) have "map_of kvs ''detail'' = None"
    by (simp add: map_of_eq_None_iff)
  with assms(1,2) show ?thesis by (simp add: handler_on_mapping)
qed

theorem no_detail_key_envelope_witness:
  "custom_exception_handler
     (always (Some \<lparr>data = PyDict [(''name'', PyList [PyStr ''This field is required.''])],
                     status_code = 400, headers = []\<rparr>))
     message_builtins ''Invalid input.'' ()
   = Inr (Some \<lparr>data = PyDict
            [(''error'', PyStr ''Invalid input.''),
             (''detail'', PyDict [(''name'', PyList [PyStr ''This field is required.''])])],
          status_code = 400, headers = []\<rparr>)"
  using no_detail_key_envelope
    [of "always (Some \<lparr>data = PyDict [(''name'', PyList [PyStr ''This field is required.''])],
                          status_code = 400, headers = []\<rparr>)"
        "''Invalid input.''" "()"
        "\<lparr>data = PyDict [(''name'', PyList [PyStr ''This field is required.''])],
          status_code = 400, headers = []\<rparr>"
        "[(''name'', PyList [PyStr ''This field is required.''])]"
        message_builtins]
  by (simp add: always_def message_builtins_def)

text \<open>
  Claim C9. When the baseline body is a mapping in which the key \<open>detail\<close> is
  present, the \<open>error\<close> field is the string form of the value stored there, whatever
  that value is, and never the string form of the fault: \<open>get\<close> falls back to its
  default only when the key is absent. For the value \<open>None\<close> the field is the text
  \<open>None\<close>.
\<close>

theorem detail_present_never_falls_back:
  assumes "exception_handler exc context = Some r"
    and "data r = PyDict kvs"
    and "map_of kvs ''detail'' = Some v"
  shows "custom_exception_handler exception_handler B exc context =
           Inr (Some (r\<lparr>data := PyDict [(''error'', PyStr (py_str B v)),
                                          (''detail'', PyDict kvs)]\<rparr>))
       \<and> py_str B PyNone = ''None''"
  using assms by (simp add: handler_on_mapping)

theorem detail_present_never_falls_back_witness:
  "custom_exception_handler
     (always (Some \<lparr>data = PyDict [(''detail'', PyNone)], status_code = 404, headers = []\<rparr>))
     message_builtins ''Not found.'' ()
   = Inr (Some \<lparr>data = PyDict [(''error'', PyStr ''None''),
                                 (''detail'', PyDict [(''detail'', PyNone)])],
                  status_code = 404, headers = []\<rparr>)"
  using detail_present_never_falls_back
    [of "always (Some \<lparr>data = PyDict [(''detail'', PyNone)], status_code = 404, headers = []\<rparr>)"
        "''Not found.''" "()"
        "\<lparr>data = PyDict [(''detail'', PyNone)], status_code = 404, headers = []\<rparr>"
        "[(''detail'', PyNone)]" PyNone message_builtins]
  by (simp add: always_def)

text \<open>
  Claim C10. When the baseline body is a mapping that has the key \<open>detail\<close>, the result
  does not depend on the fault: two invocations whose faults (and contexts) differ,
  but whose baseline responses are the same, return the same.
\<close>

theorem fault_irrelevant_when_detail_present:
  assumes "exception_handler exc1 context1 = Some r"
    and "exception_handler exc2 context2 = Some r"
    and "data r = PyDict kvs"
    and "''detail'' \<in> fst ` set kvs"
  shows "custom_exception_handler exception_handler B exc1 context1 =
         custom_exception_handler exception_handler B exc2 context2"
proof -
  from assms(4) obtain v where "map_of kvs ''detail'' = Some v"
    using map_of_eq_None_iff [of kvs "''detail''"] by (cases "map_of kvs ''detail''") auto
  with assms(1-3) show ?thesis by (simp add: handler_on_mapping)
qed

theorem fault_irrelevant_when_detail_present_witness:
  "custom_exception_handler
     (always (Some \<lparr>data = PyDict [(''detail'', PyStr ''Not found.'')],
                     status_code = 404, headers = []\<rparr>))
     message_builtins ''first fault'' ()
   = custom_exception_handler
     (always (Some \<lparr>data = PyDict [(''detail'', PyStr ''Not found.'')],
                     status_code = 404, headers = []\<rparr>))
     message_builtins ''second fault'' ()"
  using fault_irrelevant_when_detail_present
    [of "always (Some \<lparr>data = PyDict [(''detail'', PyStr ''Not found.'')],
                          status_code = 404, headers = []\<rparr>)"
        "''first fault''" "()"
        "\<lparr>data = PyDict [(''detail'', PyStr ''Not found.'')], status_code = 404, headers = []\<rparr>"
        "''second fault''" "()"
        "[(''detail'', PyStr ''Not found.'')]" message_builtins]
  by (simp add: always_def)

subsection \<open>What is kept of the baseline response\<close>

text \<open>
  Claim C7. Whenever the handler returns a response, the formatter had returned one,
  and the two have the same status code and the same headers: the returned response is
  the baseline response with nothing but its \<open>data\<close> replaced.
\<close>

theorem status_and_headers_kept:
  assumes "custom_exception_handler exception_handler B exc context = Inr (Some r')"
  shows "\<exists>r. exception_handler exc context = Some r
           \<and> status_code r' = status_code r \<and> headers r' = headers r
           \<and> r' = r\<lparr>data := data r'\<rparr>"
proof (cases "exception_handler exc context")
  case None
  with assms show ?thesis by (simp add: handler_on_none)
next
  case (Some r)
  with assms have eq: "r' = r\<lparr>data := data r'\<rparr>"
    by (auto simp: custom_exception_handler_def split: sum.splits)
  have "status_code (r\<lparr>data := data r'\<rparr>) = status_code r"
    and "headers (r\<lparr>data := data r'\<rparr>) = headers r"
    by simp_all
  with eq have "status_code r' = status_code r \<and> headers r' = headers r"
    by simp
  with Some eq show ?thesis by simp
qed

theorem status_and_headers_kept_witness:
  "custom_exception_handler
     (always (Some \<lparr>data = PyDict [(''detail'', PyStr ''Request was throttled.'')],
                     status_code = 429, headers = [(''Retry-After'', ''30'')]\<rparr>))
     message_builtins ''Request was throttled.'' ()
   = Inr (Some \<lparr>data = PyDict [(''error'', PyStr ''Request was throttled.''),
                     (''detail'', PyDict [(''detail'', PyStr ''Request was throttled.'')])],
                  status_code = 429, headers = [(''Retry-After'', ''30'')]\<rparr>)
   \<and> (\<exists>r. always (Some \<lparr>data = PyDict [(''detail'', PyStr ''Request was throttled.'')],
                     status_code = 429, headers = [(''Retry-After'', ''30'')]\<rparr>)
              ''Request was throttled.'' () = Some r
          \<and> status_code r = 429 \<and> headers r = [(''Retry-After'', ''30'')])"
proof -
  have h: "custom_exception_handler
     (always (Some \<lparr>data = PyDict [(''detail'', PyStr ''Request was throttled.'')],
                     status_code = 429, headers = [(''Retry-After'', ''30'')]\<rparr>))
     message_builtins ''Request was throttled.'' ()
   = Inr (Some \<lparr>data = PyDict [(''error'', PyStr ''Request was throttled.''),
                     (''detail'', PyDict [(''detail'', PyStr ''Request was throttled.'')])],
                  status_code = 429, headers = [(''Retry-After'', ''30'')]\<rparr>)"
    by (simp add: custom_exception_handler_def always_def)
  from status_and_headers_kept [OF h] obtain r where
    "always (Some \<lparr>data = PyDict [(''detail'', PyStr ''Request was throttled.'')],
                     status_code = 429, headers = [(''Retry-After'', ''30'')]\<rparr>)
              ''Request was throttled.'' () = Some r"
    and "status_code r = 429" and "headers r = [(''Retry-After'', ''30'')]"
    by auto
  with h show ?thesis by blast
qed

subsection \<open>Bodies that are not mappings\<close>

text \<open>
  The attribute lookup \<open>response.data.get\<close> comes first in the handler, before the test
  \<open>isinstance(response.data, str)\<close>. A body that is a string or a list has no \<open>get\<close>,
  so the handler raises \<open>AttributeError\<close> on it (\<open>handler_on_non_mapping\<close>) and the
  branch for a string body is never reached. The default formatter gives a list body
  to a validation fault raised with a message or a list; a detail that is a plain
  string it wraps as the mapping \<open>{"detail": ...}\<close>.
\<close>




text \<open>
  Claim C6 says that a baseline body of another shape, such as a list, is wrapped as
  \<open>{"error": str(exc), "detail": <the list>}\<close>. On the list body of a validation
  fault with status 400 the handler does not return that envelope: it raises
  \<open>AttributeError\<close>.
\<close>

theorem list_body_not_wrapped:
  "custom_exception_handler
     (always (Some \<lparr>data = PyList [PyStr ''Enter a valid email address.''],
                     status_code = 400, headers = []\<rparr>))
     message_builtins ''Enter a valid email address.'' ()
   \<noteq> Inr (Some \<lparr>data = PyDict [(''error'', PyStr ''Enter a valid email address.''),
                                 (''detail'', PyList [PyStr ''Enter a valid email address.''])],
                  status_code = 400, headers = []\<rparr>)
   \<and> custom_exception_handler
     (always (Some \<lparr>data = PyList [PyStr ''Enter a valid email address.''],
                     status_code = 400, headers = []\<rparr>))
     message_builtins ''Enter a valid email address.'' ()
   = Inl (AttributeError ''list'' ''get'')"
  by (simp add: custom_exception_handler_def always_def)

text \<open>
  Claim C5 says that the handler never raises, whatever the shape of the baseline body.
  On a baseline body that is a list of mappings, the errors of a list of items, it
  raises \<open>AttributeError\<close>.
\<close>

theorem handler_raises_on_list_of_mappings:
  "custom_exception_handler
     (always (Some \<lparr>data = PyList [PyDict [(''name'', PyList [PyStr ''This field is required.''])],
                                   PyDict []],
                     status_code = 400, headers = []\<rparr>))
     message_builtins ''Invalid input.'' ()
   = Inl (AttributeError ''list'' ''get'')"
  by (simp add: custom_exception_handler_def always_def)

text \<open>
  Claim C4 says that the handler returns \<open>None\<close> when the formatter does
  (\<open>handler_on_none\<close>), and that it returns a response whenever the formatter returns
  one. Here the formatter returns a response, with a list of two messages as its
  body, and the handler returns neither a response nor \<open>None\<close>: it raises
  \<open>AttributeError\<close>.
\<close>

theorem response_formatted_but_none_returned:
  "always (Some \<lparr>data = PyList [PyStr ''Room is already booked.'', PyStr ''Start must precede end.''],
                  status_code = 400, headers = []\<rparr>) ''Invalid input.'' () \<noteq> None
   \<and> custom_exception_handler
     (always (Some \<lparr>data = PyList [PyStr ''Room is already booked.'', PyStr ''Start must precede end.''],
                     status_code = 400, headers = []\<rparr>))
     message_builtins ''Invalid input.'' ()
   = Inl (AttributeError ''list'' ''get'')"
  by (simp add: custom_exception_handler_def always_def)

end
